theory Spec2Isabelle
  imports Main "HOL-Library.Word"
begin

unbundle bit_operations_syntax

section \<open>The register file of the ATmega328P\<close>

text \<open>
  The drivers of \<^verbatim>\<open>hal_avr_m328p\<close> are classes of static methods over memory-mapped
  special function registers. The registers the verified drivers touch are the fields of
  one record; a driver method takes the register file and returns it updated. All
  registers are 8 bits wide except the baud rate register pair \<^verbatim>\<open>UBRR0\<close>, which the
  driver writes as one 16-bit value.

  The target is avr-gcc: \<^verbatim>\<open>int\<close> and \<^verbatim>\<open>unsigned int\<close> have 16 bits, \<^verbatim>\<open>uint32_t\<close> is
  \<^verbatim>\<open>unsigned long\<close>.
\<close>

type_synonym u8 = "8 word"
type_synonym u16 = "16 word"
type_synonym u32 = "32 word"

record regs =
  SREG :: u8
  DDRB :: u8
  DDRC :: u8
  DDRD :: u8
  TCCR0A :: u8
  TCCR0B :: u8
  TCCR1A :: u8
  TCCR1B :: u8
  TCCR2A :: u8
  TCCR2B :: u8
  UBRR0 :: u16
  UCSR0A :: u8
  UCSR0B :: u8
  UCSR0C :: u8

text \<open>All registers cleared: the state the witnesses start from.\<close>

definition cleared_regs :: regs where
  "cleared_regs = \<lparr>SREG = 0, DDRB = 0, DDRC = 0, DDRD = 0,
     TCCR0A = 0, TCCR0B = 0, TCCR1A = 0, TCCR1B = 0, TCCR2A = 0, TCCR2B = 0,
     UBRR0 = 0, UCSR0A = 0, UCSR0B = 0, UCSR0C = 0\<rparr>"

subsection \<open>Bit positions from the device header\<close>

text \<open>
  The bit numbers are macros of avr-libc's \<^verbatim>\<open>iom328p.h\<close>, which is not part of the
  repository; they are the values of the ATmega328P data sheet.
\<close>

definition SREG_I :: nat where "SREG_I = 7"

definition WGM00 :: nat where "WGM00 = 0"
definition WGM01 :: nat where "WGM01 = 1"
definition WGM02 :: nat where "WGM02 = 3"
definition WGM10 :: nat where "WGM10 = 0"
definition WGM11 :: nat where "WGM11 = 1"
definition WGM12 :: nat where "WGM12 = 3"
definition WGM13 :: nat where "WGM13 = 4"
definition WGM20 :: nat where "WGM20 = 0"
definition WGM21 :: nat where "WGM21 = 1"
definition WGM22 :: nat where "WGM22 = 3"

definition U2X0 :: nat where "U2X0 = 1"
definition RXCIE0 :: nat where "RXCIE0 = 7"
definition TXCIE0 :: nat where "TXCIE0 = 6"
definition UDRIE0 :: nat where "UDRIE0 = 5"
definition RXEN0 :: nat where "RXEN0 = 4"
definition TXEN0 :: nat where "TXEN0 = 3"
definition UMSEL00 :: nat where "UMSEL00 = 6"
definition UMSEL01 :: nat where "UMSEL01 = 7"
definition UPM00 :: nat where "UPM00 = 4"
definition UPM01 :: nat where "UPM01 = 5"
definition USBS0 :: nat where "USBS0 = 3"
definition UCSZ00 :: nat where "UCSZ00 = 1"
definition UCSZ01 :: nat where "UCSZ01 = 2"
definition UCPOL0 :: nat where "UCPOL0 = 0"

text \<open>The macro \<^verbatim>\<open>_BV(bit)\<close> of avr-libc, \<^verbatim>\<open>(1 << (bit))\<close>, in a byte.\<close>

definition BV :: "nat \<Rightarrow> u8" where
  "BV b = push_bit b 1"

section \<open>Register access\<close>

text \<open>
  Modelled from the spec: \<^verbatim>\<open>register_access.h\<close>, which declares \<^verbatim>\<open>BitInRegister\<close> and
  \<^verbatim>\<open>BitGroupInRegister\<close>, is included by every driver but is not among the sources. The
  accessors follow the contracts of the BitField and the BitGroupField: a bit is read as
  a boolean, set by a read-modify-write that forces it to 1, cleared by one that forces
  it to 0, and \<^verbatim>\<open>write(bool)\<close> dispatches to the two; a bit group write reads the
  register, clears exactly the bits in [low, high], ORs in the value's bits shifted to
  low and writes the result back; a bit group read masks the bits [low, high] and shifts
  them down to position 0. The functions act on the contents of the register the
  accessor is declared over. The contract covers the values that fit the width of the
  group; for a wider value it fixes no result. The definition ORs such a value in as it
  is, and nothing below is settled on that case.
\<close>

definition BitInRegister_read :: "nat \<Rightarrow> u8 \<Rightarrow> bool" where
  "BitInRegister_read i r = bit r i"

definition BitInRegister_set :: "nat \<Rightarrow> u8 \<Rightarrow> u8" where
  "BitInRegister_set i r = r OR push_bit i 1"

definition BitInRegister_clear :: "nat \<Rightarrow> u8 \<Rightarrow> u8" where
  "BitInRegister_clear i r = r AND NOT (push_bit i 1)"

definition BitInRegister_write :: "nat \<Rightarrow> bool \<Rightarrow> u8 \<Rightarrow> u8" where
  "BitInRegister_write i b r = (if b then BitInRegister_set i r else BitInRegister_clear i r)"

definition BitGroup_mask :: "nat \<Rightarrow> nat \<Rightarrow> u8" where
  "BitGroup_mask lo hi = push_bit lo (mask (hi - lo + 1))"

definition BitGroupInRegister_write :: "nat \<Rightarrow> nat \<Rightarrow> u8 \<Rightarrow> u8 \<Rightarrow> u8" where
  "BitGroupInRegister_write lo hi v r = (r AND NOT (BitGroup_mask lo hi)) OR push_bit lo v"

definition BitGroupInRegister_read :: "nat \<Rightarrow> nat \<Rightarrow> u8 \<Rightarrow> u8" where
  "BitGroupInRegister_read lo hi r = drop_bit lo (r AND BitGroup_mask lo hi)"

section \<open>Atomic: the critical section guard\<close>

text \<open>
  \<^verbatim>\<open>m328p_Atomic.h\<close>. The object holds one byte, \<^verbatim>\<open>m_SREG\<close>. The constructor
  initialises it with \<^verbatim>\<open>SREG::read() & _BV(SREG_I)\<close> and then executes \<^verbatim>\<open>cli()\<close>; the
  destructor executes \<^verbatim>\<open>SREG::write(SREG::read() | m_SREG)\<close>.
\<close>

record Atomic =
  m_SREG :: u8

text \<open>The instruction \<^verbatim>\<open>cli\<close> clears the global interrupt enable bit of \<^verbatim>\<open>SREG\<close>.\<close>

definition cli :: "regs \<Rightarrow> regs" where
  "cli s = s\<lparr>SREG := SREG s AND NOT (BV SREG_I)\<rparr>"

definition Atomic_ctor :: "regs \<Rightarrow> Atomic \<times> regs" where
  "Atomic_ctor s = (\<lparr>m_SREG = SREG s AND BV SREG_I\<rparr>, cli s)"

definition Atomic_dtor :: "Atomic \<Rightarrow> regs \<Rightarrow> regs" where
  "Atomic_dtor a s = s\<lparr>SREG := SREG s OR m_SREG a\<rparr>"

text \<open>Whether global interrupts are enabled in a register file.\<close>

definition interrupts_enabled :: "regs \<Rightarrow> bool" where
  "interrupts_enabled s = bit (SREG s) SREG_I"

section \<open>EEPROM: the single-byte interface\<close>

text \<open>
  \<^verbatim>\<open>m328p_EEPROM.h\<close>. The driver owns a static buffer \<^verbatim>\<open>auiBuffer[capacity()]\<close> placed in
  EEMEM; \<^verbatim>\<open>getBufferPointer(offset)\<close> returns \<^verbatim>\<open>auiBuffer + (offset & (capacity()-1))\<close>.
  The buffer is a list of bytes and a pointer into it is its index. The avr-libc
  routines \<^verbatim>\<open>eeprom_write_byte\<close> and \<^verbatim>\<open>eeprom_read_byte\<close> access the byte a pointer
  designates; an access outside the buffer has no defined result and is \<open>None\<close>.
\<close>

type_synonym Address = u16

definition capacity :: u32 where
  "capacity = 1024"

definition getBufferPointer :: "Address \<Rightarrow> nat" where
  "getBufferPointer offset = unat ((ucast offset :: u32) AND (capacity - 1))"

definition eeprom_write_byte :: "nat \<Rightarrow> u8 \<Rightarrow> u8 list \<Rightarrow> u8 list option" where
  "eeprom_write_byte p d auiBuffer =
     (if p < length auiBuffer then Some (auiBuffer[p := d]) else None)"

definition eeprom_read_byte :: "nat \<Rightarrow> u8 list \<Rightarrow> u8 option" where
  "eeprom_read_byte p auiBuffer =
     (if p < length auiBuffer then Some (auiBuffer ! p) else None)"

definition EEPROM_write :: "Address \<Rightarrow> u8 \<Rightarrow> u8 list \<Rightarrow> u8 list option" where
  "EEPROM_write pos d auiBuffer = eeprom_write_byte (getBufferPointer pos) d auiBuffer"

definition EEPROM_read :: "Address \<Rightarrow> u8 list \<Rightarrow> u8 option" where
  "EEPROM_read pos auiBuffer = eeprom_read_byte (getBufferPointer pos) auiBuffer"

section \<open>GPIO: a group of pins of a port\<close>

text \<open>
  \<^verbatim>\<open>m328p_GPIO.h\<close>. \<^verbatim>\<open>GPIOSubPort<t_port, t_firstPin, t_lastPin>\<close> declares its data
  direction accessor as \<^verbatim>\<open>BitGroupInRegister<DDR, t_firstPin, t_lastPin>\<close> over the
  port's data direction register; \<^verbatim>\<open>setAsInput()\<close> is \<^verbatim>\<open>DDR::write(0)\<close> and
  \<^verbatim>\<open>setAsOutput()\<close> is \<^verbatim>\<open>DDR::write(0xFF)\<close>.
\<close>

datatype Port = B | C | D

fun DDR :: "Port \<Rightarrow> regs \<Rightarrow> u8" where
  "DDR B s = DDRB s"
| "DDR C s = DDRC s"
| "DDR D s = DDRD s"

fun DDR_store :: "Port \<Rightarrow> u8 \<Rightarrow> regs \<Rightarrow> regs" where
  "DDR_store B v s = s\<lparr>DDRB := v\<rparr>"
| "DDR_store C v s = s\<lparr>DDRC := v\<rparr>"
| "DDR_store D v s = s\<lparr>DDRD := v\<rparr>"

definition GPIOSubPort_setAsInput :: "Port \<Rightarrow> nat \<Rightarrow> nat \<Rightarrow> regs \<Rightarrow> regs" where
  "GPIOSubPort_setAsInput t_port t_firstPin t_lastPin s =
     DDR_store t_port (BitGroupInRegister_write t_firstPin t_lastPin 0 (DDR t_port s)) s"

definition GPIOSubPort_setAsOutput :: "Port \<Rightarrow> nat \<Rightarrow> nat \<Rightarrow> regs \<Rightarrow> regs" where
  "GPIOSubPort_setAsOutput t_port t_firstPin t_lastPin s =
     DDR_store t_port (BitGroupInRegister_write t_firstPin t_lastPin 0xFF (DDR t_port s)) s"

section \<open>Timers: the waveform generation mode selectors\<close>

text \<open>
  \<^verbatim>\<open>m328p_Timer0.h\<close>, \<^verbatim>\<open>m328p_Timer1.h\<close>, \<^verbatim>\<open>m328p_Timer2.h\<close>. Each
  \<^verbatim>\<open>WaveformGenerationMode\<close> is an \<^verbatim>\<open>enum class\<close> over \<^verbatim>\<open>uint8_t\<close>; \<^verbatim>\<open>read()\<close> casts
  whatever bits the registers hold to it, so a mode is its byte, and the enumerators are
  named constants.
\<close>

type_synonym WaveformGenerationMode = u8

definition Timer0_NORMAL :: WaveformGenerationMode where "Timer0_NORMAL = 0"
definition Timer0_PWM_PHASE_CORRECT_1 :: WaveformGenerationMode where "Timer0_PWM_PHASE_CORRECT_1 = 1"
definition Timer0_CTC :: WaveformGenerationMode where "Timer0_CTC = 2"
definition Timer0_PWM_FAST_1 :: WaveformGenerationMode where "Timer0_PWM_FAST_1 = 3"
definition Timer0_PWM_PHASE_CORRECT_2 :: WaveformGenerationMode where "Timer0_PWM_PHASE_CORRECT_2 = 5"
definition Timer0_PWM_FAST_2 :: WaveformGenerationMode where "Timer0_PWM_FAST_2 = 7"

definition Timer0_modes :: "WaveformGenerationMode list" where
  "Timer0_modes = [Timer0_NORMAL, Timer0_PWM_PHASE_CORRECT_1, Timer0_CTC, Timer0_PWM_FAST_1,
     Timer0_PWM_PHASE_CORRECT_2, Timer0_PWM_FAST_2]"

definition Timer1_NORMAL :: WaveformGenerationMode where "Timer1_NORMAL = 0"
definition Timer1_PWM_PHASE_CORRECT_8BIT :: WaveformGenerationMode where "Timer1_PWM_PHASE_CORRECT_8BIT = 1"
definition Timer1_PWM_PHASE_CORRECT_9BIT :: WaveformGenerationMode where "Timer1_PWM_PHASE_CORRECT_9BIT = 2"
definition Timer1_PWM_PHASE_CORRECT_10BIT :: WaveformGenerationMode where "Timer1_PWM_PHASE_CORRECT_10BIT = 3"
definition Timer1_CTC_1 :: WaveformGenerationMode where "Timer1_CTC_1 = 4"
definition Timer1_PWM_FAST_CORRECT_8BIT :: WaveformGenerationMode where "Timer1_PWM_FAST_CORRECT_8BIT = 5"
definition Timer1_PWM_FAST_CORRECT_9BIT :: WaveformGenerationMode where "Timer1_PWM_FAST_CORRECT_9BIT = 6"
definition Timer1_PWM_FAST_CORRECT_10BIT :: WaveformGenerationMode where "Timer1_PWM_FAST_CORRECT_10BIT = 7"
definition Timer1_PWM_PHASE_CORRECT_FREQ_1 :: WaveformGenerationMode where "Timer1_PWM_PHASE_CORRECT_FREQ_1 = 8"
definition Timer1_PWM_PHASE_CORRECT_FREQ_2 :: WaveformGenerationMode where "Timer1_PWM_PHASE_CORRECT_FREQ_2 = 9"
definition Timer1_PWM_PHASE_CORRECT_1 :: WaveformGenerationMode where "Timer1_PWM_PHASE_CORRECT_1 = 10"
definition Timer1_PWM_PHASE_CORRECT_2 :: WaveformGenerationMode where "Timer1_PWM_PHASE_CORRECT_2 = 11"
definition Timer1_CTC_2 :: WaveformGenerationMode where "Timer1_CTC_2 = 12"
definition Timer1_PWM_FAST_1 :: WaveformGenerationMode where "Timer1_PWM_FAST_1 = 14"
definition Timer1_PWM_FAST_2 :: WaveformGenerationMode where "Timer1_PWM_FAST_2 = 15"

definition Timer1_modes :: "WaveformGenerationMode list" where
  "Timer1_modes = [Timer1_NORMAL, Timer1_PWM_PHASE_CORRECT_8BIT, Timer1_PWM_PHASE_CORRECT_9BIT,
     Timer1_PWM_PHASE_CORRECT_10BIT, Timer1_CTC_1, Timer1_PWM_FAST_CORRECT_8BIT,
     Timer1_PWM_FAST_CORRECT_9BIT, Timer1_PWM_FAST_CORRECT_10BIT, Timer1_PWM_PHASE_CORRECT_FREQ_1,
     Timer1_PWM_PHASE_CORRECT_FREQ_2, Timer1_PWM_PHASE_CORRECT_1, Timer1_PWM_PHASE_CORRECT_2,
     Timer1_CTC_2, Timer1_PWM_FAST_1, Timer1_PWM_FAST_2]"

text \<open>Timer 2 declares the same six enumerators as Timer 0.\<close>

definition Timer2_modes :: "WaveformGenerationMode list" where
  "Timer2_modes = [0, 1, 2, 3, 5, 7]"

text \<open>
  Timer 0: the low two bits go to the bit group WGM00..WGM01 of TCCR0A, and the bit
  WGM02 of TCCR0B is written with \<^verbatim>\<open>value & 0b100\<close> converted to \<^verbatim>\<open>bool\<close>.
\<close>

definition Timer0_WGM_write :: "WaveformGenerationMode \<Rightarrow> regs \<Rightarrow> regs" where
  "Timer0_WGM_write waveformGenerationMode s =
     (let s1 = s\<lparr>TCCR0A := BitGroupInRegister_write WGM00 WGM01 (waveformGenerationMode AND 3) (TCCR0A s)\<rparr>
      in s1\<lparr>TCCR0B := BitInRegister_write WGM02 (waveformGenerationMode AND 4 \<noteq> 0) (TCCR0B s1)\<rparr>)"

definition Timer0_WGM_read :: "regs \<Rightarrow> WaveformGenerationMode" where
  "Timer0_WGM_read s =
     (let waveformGenerationMode = BitGroupInRegister_read WGM00 WGM01 (TCCR0A s)
      in if BitInRegister_read WGM02 (TCCR0B s) then waveformGenerationMode OR 4
         else waveformGenerationMode)"

text \<open>
  Timer 1: the low two bits go to WGM10..WGM11 of TCCR1A; the group WGM12..WGM13 of
  TCCR1B is written with \<^verbatim>\<open>(value & 0b11) << 2\<close>. Reading shifts the TCCR1B group left by
  two and ORs in the TCCR1A group.
\<close>

definition Timer1_WGM_write :: "WaveformGenerationMode \<Rightarrow> regs \<Rightarrow> regs" where
  "Timer1_WGM_write waveformGenerationMode s =
     (let s1 = s\<lparr>TCCR1A := BitGroupInRegister_write WGM10 WGM11 (waveformGenerationMode AND 3) (TCCR1A s)\<rparr>
      in s1\<lparr>TCCR1B := BitGroupInRegister_write WGM12 WGM13
                          (push_bit 2 (waveformGenerationMode AND 3)) (TCCR1B s1)\<rparr>)"

definition Timer1_WGM_read :: "regs \<Rightarrow> WaveformGenerationMode" where
  "Timer1_WGM_read s =
     (let waveformGenerationMode = push_bit 2 (BitGroupInRegister_read WGM12 WGM13 (TCCR1B s))
      in waveformGenerationMode OR BitGroupInRegister_read WGM10 WGM11 (TCCR1A s))"

text \<open>Timer 2: as Timer 0, over TCCR2A and TCCR2B.\<close>

definition Timer2_WGM_write :: "WaveformGenerationMode \<Rightarrow> regs \<Rightarrow> regs" where
  "Timer2_WGM_write waveformGenerationMode s =
     (let s1 = s\<lparr>TCCR2A := BitGroupInRegister_write WGM20 WGM21 (waveformGenerationMode AND 3) (TCCR2A s)\<rparr>
      in s1\<lparr>TCCR2B := BitInRegister_write WGM22 (waveformGenerationMode AND 4 \<noteq> 0) (TCCR2B s1)\<rparr>)"

definition Timer2_WGM_read :: "regs \<Rightarrow> WaveformGenerationMode" where
  "Timer2_WGM_read s =
     (let waveformGenerationMode = BitGroupInRegister_read WGM20 WGM21 (TCCR2A s)
      in if BitInRegister_read WGM22 (TCCR2B s) then waveformGenerationMode OR 4
         else waveformGenerationMode)"

section \<open>USART0: the baud rate generator settings\<close>

text \<open>
  \<^verbatim>\<open>m328p_USART0.h\<close>. The helper methods are \<^verbatim>\<open>constexpr\<close> functions over \<^verbatim>\<open>uint32_t\<close>
  arguments. Arithmetic on \<^verbatim>\<open>uint32_t\<close> wraps modulo \<open>2 ^ 32\<close>; a \<^verbatim>\<open>uint16_t\<close> return
  value keeps the low 16 bits; \<^verbatim>\<open>16 * (ubrr + 1)\<close> has the operands \<^verbatim>\<open>int\<close> and
  \<^verbatim>\<open>uint16_t\<close>, which avr-gcc evaluates in 16-bit \<^verbatim>\<open>unsigned int\<close>, and the quotient
  \<^verbatim>\<open>clock / ...\<close> is taken in \<^verbatim>\<open>uint32_t\<close>. An integer division by zero has no defined
  result (and is rejected in a constant expression): it is the value \<open>None\<close>, and every
  function that calls a failed one fails.
\<close>

definition getUBRRValueSingleSpeed :: "u32 \<Rightarrow> u32 \<Rightarrow> u16 option" where
  "getUBRRValueSingleSpeed clock baudRate =
     (if baudRate * 16 = 0 then None
      else Some (ucast ((clock + baudRate * 8) div (baudRate * 16) - 1)))"

definition getUBRRValueDoubleSpeed :: "u32 \<Rightarrow> u32 \<Rightarrow> u16 option" where
  "getUBRRValueDoubleSpeed clock baudRate =
     (if baudRate * 8 = 0 then None
      else Some (ucast ((clock + baudRate * 8) div (baudRate * 8) - 1)))"

definition getRealBaudRateSingleSpeed :: "u32 \<Rightarrow> u32 \<Rightarrow> u32 option" where
  "getRealBaudRateSingleSpeed clock baudRate =
     (case getUBRRValueSingleSpeed clock baudRate of
        None \<Rightarrow> None
      | Some ubrr \<Rightarrow>
          (let d = (16 * (ubrr + 1) :: u16)
           in if d = 0 then None else Some (clock div ucast d)))"

definition getRealBaudRateDoubleSpeed :: "u32 \<Rightarrow> u32 \<Rightarrow> u32 option" where
  "getRealBaudRateDoubleSpeed clock baudRate =
     (case getUBRRValueDoubleSpeed clock baudRate of
        None \<Rightarrow> None
      | Some ubrr \<Rightarrow>
          (let d = (8 * (ubrr + 1) :: u16)
           in if d = 0 then None else Some (clock div ucast d)))"

text \<open>
  The two error functions have the same body over the real baud rate of their mode:
  \<^verbatim>\<open>if (real > baudRate) return (real * 1000) / baudRate - 1000;
   else return (baudRate * 1000) / real - 1000;\<close>
\<close>

definition getBaudRateErrorSingleSpeed :: "u32 \<Rightarrow> u32 \<Rightarrow> u32 option" where
  "getBaudRateErrorSingleSpeed clock baudRate =
     (case getRealBaudRateSingleSpeed clock baudRate of
        None \<Rightarrow> None
      | Some real \<Rightarrow>
          if real > baudRate
          then (if baudRate = 0 then None else Some (real * 1000 div baudRate - 1000))
          else (if real = 0 then None else Some (baudRate * 1000 div real - 1000)))"

definition getBaudRateErrorDoubleSpeed :: "u32 \<Rightarrow> u32 \<Rightarrow> u32 option" where
  "getBaudRateErrorDoubleSpeed clock baudRate =
     (case getRealBaudRateDoubleSpeed clock baudRate of
        None \<Rightarrow> None
      | Some real \<Rightarrow>
          if real > baudRate
          then (if baudRate = 0 then None else Some (real * 1000 div baudRate - 1000))
          else (if real = 0 then None else Some (baudRate * 1000 div real - 1000)))"

definition getDoubleSpeed :: "u32 \<Rightarrow> u32 \<Rightarrow> bool option" where
  "getDoubleSpeed clock baudRate =
     (case getBaudRateErrorDoubleSpeed clock baudRate of
        None \<Rightarrow> None
      | Some errorDouble \<Rightarrow>
          (case getBaudRateErrorSingleSpeed clock baudRate of
             None \<Rightarrow> None
           | Some errorSingle \<Rightarrow> Some (errorDouble < errorSingle)))"

definition getUBRRValue :: "u32 \<Rightarrow> u32 \<Rightarrow> u16 option" where
  "getUBRRValue clock baudRate =
     (case getDoubleSpeed clock baudRate of
        None \<Rightarrow> None
      | Some doubleSpeed \<Rightarrow>
          if doubleSpeed then getUBRRValueDoubleSpeed clock baudRate
          else getUBRRValueSingleSpeed clock baudRate)"

text \<open>The frame format enumerations, with the byte each enumerator stands for.\<close>

text \<open>
  The enumerators \<^verbatim>\<open>_5\<close> .. \<^verbatim>\<open>_8\<close> of \<^verbatim>\<open>CharacterSize\<close> and \<^verbatim>\<open>_1\<close>, \<^verbatim>\<open>_2\<close> of
  \<^verbatim>\<open>StopBits\<close> carry the initials of their enumeration in front.
\<close>

datatype CharacterSize = CS_5 | CS_6 | CS_7 | CS_8
datatype Mode = ASYNC | SYNC | SPI_MASTER
datatype Parity = NONE | EVEN | ODD
datatype StopBits = SB_1 | SB_2
datatype ClockPolarity = OUT_RISING_IN_FALLING | OUT_FALLING_IN_RISING

fun CharacterSize_value :: "CharacterSize \<Rightarrow> u8" where
  "CharacterSize_value CS_5 = 0"
| "CharacterSize_value CS_6 = 1"
| "CharacterSize_value CS_7 = 2"
| "CharacterSize_value CS_8 = 3"

fun Mode_value :: "Mode \<Rightarrow> u8" where
  "Mode_value ASYNC = 0"
| "Mode_value SYNC = 1"
| "Mode_value SPI_MASTER = 3"

fun Parity_value :: "Parity \<Rightarrow> u8" where
  "Parity_value NONE = 0"
| "Parity_value EVEN = 2"
| "Parity_value ODD = 3"

fun StopBits_value :: "StopBits \<Rightarrow> u8" where
  "StopBits_value SB_1 = 0"
| "StopBits_value SB_2 = 1"

fun ClockPolarity_value :: "ClockPolarity \<Rightarrow> u8" where
  "ClockPolarity_value OUT_RISING_IN_FALLING = 0"
| "ClockPolarity_value OUT_FALLING_IN_RISING = 1"

record USART0_config =
  txEnabled :: bool
  txInterruptEnabled :: bool
  UDREInterruptEnabled :: bool
  rxEnabled :: bool
  rxInterruptEnabled :: bool
  mode :: Mode
  characterSize :: CharacterSize
  parity :: Parity
  stopBits :: StopBits
  clockPolarity :: ClockPolarity

text \<open>
  \<^verbatim>\<open>USART0::init\<close>: the baud rate register is written with \<^verbatim>\<open>getUBRRValue\<close>, the
  bit U2X0 of UCSR0A with \<^verbatim>\<open>getDoubleSpeed\<close>, then the enable bits of UCSR0B and the
  frame format groups of UCSR0C, in the order of the source. The parameters after the
  two rates are gathered in a record.
\<close>

definition USART0_init :: "u32 \<Rightarrow> u32 \<Rightarrow> USART0_config \<Rightarrow> regs \<Rightarrow> regs option" where
  "USART0_init cpuClock baudRate cfg s =
     (case getUBRRValue cpuClock baudRate of
        None \<Rightarrow> None
      | Some ubrr \<Rightarrow>
          (case getDoubleSpeed cpuClock baudRate of
             None \<Rightarrow> None
           | Some doubleSpeed \<Rightarrow>
               (let s1 = s\<lparr>UBRR0 := ubrr\<rparr>;
                    s2 = s1\<lparr>UCSR0A := BitInRegister_write U2X0 doubleSpeed (UCSR0A s1)\<rparr>;
                    s3 = s2\<lparr>UCSR0B := BitInRegister_write RXCIE0 (rxInterruptEnabled cfg) (UCSR0B s2)\<rparr>;
                    s4 = s3\<lparr>UCSR0B := BitInRegister_write TXCIE0 (txInterruptEnabled cfg) (UCSR0B s3)\<rparr>;
                    s5 = s4\<lparr>UCSR0B := BitInRegister_write UDRIE0 (UDREInterruptEnabled cfg) (UCSR0B s4)\<rparr>;
                    s6 = s5\<lparr>UCSR0B := BitInRegister_write RXEN0 (rxEnabled cfg) (UCSR0B s5)\<rparr>;
                    s7 = s6\<lparr>UCSR0B := BitInRegister_write TXEN0 (txEnabled cfg) (UCSR0B s6)\<rparr>;
                    s8 = s7\<lparr>UCSR0C := BitGroupInRegister_write UMSEL00 UMSEL01 (Mode_value (mode cfg)) (UCSR0C s7)\<rparr>;
                    s9 = s8\<lparr>UCSR0C := BitGroupInRegister_write UPM00 UPM01 (Parity_value (parity cfg)) (UCSR0C s8)\<rparr>;
                    s10 = s9\<lparr>UCSR0C := BitGroupInRegister_write USBS0 USBS0 (StopBits_value (stopBits cfg)) (UCSR0C s9)\<rparr>;
                    s11 = s10\<lparr>UCSR0C := BitGroupInRegister_write UCSZ00 UCSZ01 (CharacterSize_value (characterSize cfg)) (UCSR0C s10)\<rparr>
                in Some (s11\<lparr>UCSR0C := BitGroupInRegister_write UCPOL0 UCPOL0
                               (ClockPolarity_value (clockPolarity cfg)) (UCSR0C s11)\<rparr>))))"

text \<open>A frame configuration for the witnesses: 8 data bits, no parity, one stop bit.\<close>

definition config_8N1 :: USART0_config where
  "config_8N1 = \<lparr>txEnabled = True, txInterruptEnabled = False, UDREInterruptEnabled = False,
     rxEnabled = True, rxInterruptEnabled = False, mode = ASYNC, characterSize = CS_8,
     parity = NONE, stopBits = SB_1, clockPolarity = OUT_RISING_IN_FALLING\<rparr>"

text \<open>
  The divisor and the achieved rate in the words of the design document, over the
  integers: with \<open>ticks\<close> clock ticks per bit (16 in single speed, 8 in double speed) the
  divisor is \<open>(F + B * ticks / 2) / (B * ticks) - 1\<close>, the achieved rate is
  \<open>F / (ticks * (N + 1))\<close>, and the relative error in parts per thousand is
  \<open>achieved * 1000 / requested - 1000\<close> if the achieved rate is above the requested one
  and \<open>requested * 1000 / achieved - 1000\<close> otherwise.
\<close>

definition spec_divisor :: "int \<Rightarrow> int \<Rightarrow> int \<Rightarrow> int" where
  "spec_divisor ticks F Bd = (F + Bd * ticks div 2) div (Bd * ticks) - 1"

definition spec_achieved :: "int \<Rightarrow> int \<Rightarrow> int \<Rightarrow> int" where
  "spec_achieved ticks F N = F div (ticks * (N + 1))"

definition spec_error :: "int \<Rightarrow> int \<Rightarrow> int" where
  "spec_error achieved requested =
     (if achieved > requested then achieved * 1000 div requested - 1000
      else requested * 1000 div achieved - 1000)"

section \<open>Properties of Atomic\<close>

lemma bit_BV: "bit (BV b) n \<longleftrightarrow> n = b \<and> b < 8"
  by (auto simp: BV_def bit_push_bit_iff bit_1_iff simp del: push_bit_of_1)

lemma enabled_after_ctor: "\<not> interrupts_enabled (snd (Atomic_ctor s))"
  by (simp add: interrupts_enabled_def Atomic_ctor_def cli_def bit_and_iff bit_not_iff bit_BV
      SREG_I_def)

lemma snapshot_bit:
  "bit (m_SREG (fst (Atomic_ctor s))) n \<longleftrightarrow> n = SREG_I \<and> interrupts_enabled s"
  by (auto simp: interrupts_enabled_def Atomic_ctor_def bit_and_iff bit_BV SREG_I_def)

lemma enabled_after_dtor:
  "interrupts_enabled (Atomic_dtor a s) \<longleftrightarrow> interrupts_enabled s \<or> bit (m_SREG a) SREG_I"
  by (simp add: interrupts_enabled_def Atomic_dtor_def bit_or_iff)

text \<open>
  C7. Nesting of the guard. Starting with the global interrupt enable bit set,
  constructing an outer and then an inner Atomic and destroying the inner one leaves
  interrupts disabled, and destroying the outer one afterwards enables them again.
  Starting with interrupts disabled, constructing and then destroying an Atomic leaves
  them disabled.
\<close>

theorem Atomic_nesting:
  "(interrupts_enabled s \<longrightarrow>
      (let (outer, s1) = Atomic_ctor s;
           (inner, s2) = Atomic_ctor s1;
           s3 = Atomic_dtor inner s2;
           s4 = Atomic_dtor outer s3
       in \<not> interrupts_enabled s1 \<and> \<not> interrupts_enabled s2 \<and>
          \<not> interrupts_enabled s3 \<and> interrupts_enabled s4)) \<and>
   (\<not> interrupts_enabled s \<longrightarrow>
      (let (a, s1) = Atomic_ctor s;
           s2 = Atomic_dtor a s1
       in \<not> interrupts_enabled s1 \<and> \<not> interrupts_enabled s2))"
proof -
  obtain outer s1 where o: "Atomic_ctor s = (outer, s1)" by (cases "Atomic_ctor s")
  obtain inner s2 where i: "Atomic_ctor s1 = (inner, s2)" by (cases "Atomic_ctor s1")
  have d1: "\<not> interrupts_enabled s1" using enabled_after_ctor [of s] o by simp
  have d2: "\<not> interrupts_enabled s2" using enabled_after_ctor [of s1] i by simp
  have snap_outer: "bit (m_SREG outer) SREG_I \<longleftrightarrow> interrupts_enabled s"
    using snapshot_bit [of s SREG_I] o by simp
  have snap_inner: "\<not> bit (m_SREG inner) SREG_I"
    using snapshot_bit [of s1 SREG_I] i d1 by simp
  have d3: "\<not> interrupts_enabled (Atomic_dtor inner s2)"
    using d2 snap_inner by (simp add: enabled_after_dtor)
  have e4: "interrupts_enabled (Atomic_dtor outer (Atomic_dtor inner s2)) \<longleftrightarrow> interrupts_enabled s"
    using d3 snap_outer by (simp add: enabled_after_dtor)
  have single: "interrupts_enabled (Atomic_dtor outer s1) \<longleftrightarrow> interrupts_enabled s"
    using d1 snap_outer by (simp add: enabled_after_dtor)
  show ?thesis
    using d1 d2 d3 e4 single by (simp add: o i)
qed

theorem Atomic_nesting_witness:
  "interrupts_enabled (cleared_regs\<lparr>SREG := 0x80\<rparr>) \<and>
   interrupts_enabled
     (Atomic_dtor (fst (Atomic_ctor (cleared_regs\<lparr>SREG := 0x80\<rparr>)))
        (Atomic_dtor (fst (Atomic_ctor (snd (Atomic_ctor (cleared_regs\<lparr>SREG := 0x80\<rparr>)))))
           (snd (Atomic_ctor (snd (Atomic_ctor (cleared_regs\<lparr>SREG := 0x80\<rparr>))))))) \<and>
   \<not> interrupts_enabled cleared_regs \<and>
   \<not> interrupts_enabled (Atomic_dtor (fst (Atomic_ctor cleared_regs)) (snd (Atomic_ctor cleared_regs)))"
proof -
  have en: "interrupts_enabled (cleared_regs\<lparr>SREG := 0x80\<rparr>)"
    by (simp add: interrupts_enabled_def SREG_I_def bit_iff_odd)
  have dis: "\<not> interrupts_enabled cleared_regs"
    by (simp add: interrupts_enabled_def cleared_regs_def)
  show ?thesis
    using en dis Atomic_nesting [of "cleared_regs\<lparr>SREG := 0x80\<rparr>"] Atomic_nesting [of cleared_regs]
    by (simp add: split_beta Let_def)
qed

lemma dtor_other_bits:
  "n \<noteq> SREG_I \<Longrightarrow> bit (SREG (Atomic_dtor (fst (Atomic_ctor s0)) s1)) n = bit (SREG s1) n"
  by (simp add: Atomic_dtor_def bit_or_iff snapshot_bit)

text \<open>
  C8, as the code has it. For every register file \<open>s0\<close> at construction and every register
  file \<open>s1\<close> immediately before destruction, destroying the Atomic leaves each of the seven
  other bits of SREG as it was immediately before destruction, and the interrupt enable
  bit afterwards is the OR of its value before destruction and the snapshot's bit: it is
  the snapshot's bit whenever interrupts are still disabled before destruction, as the
  constructor left them.
\<close>

theorem Atomic_dtor_frame:
  "(\<forall>n. n \<noteq> SREG_I \<longrightarrow>
        bit (SREG (Atomic_dtor (fst (Atomic_ctor s0)) s1)) n = bit (SREG s1) n) \<and>
   (interrupts_enabled (Atomic_dtor (fst (Atomic_ctor s0)) s1) \<longleftrightarrow>
      interrupts_enabled s1 \<or> interrupts_enabled s0) \<and>
   (\<not> interrupts_enabled s1 \<longrightarrow>
      interrupts_enabled (Atomic_dtor (fst (Atomic_ctor s0)) s1) = interrupts_enabled s0)"
  by (simp add: dtor_other_bits enabled_after_dtor snapshot_bit)

theorem Atomic_dtor_frame_witness:
  "\<not> interrupts_enabled (cleared_regs\<lparr>SREG := 0x03\<rparr>) \<and> (0::nat) \<noteq> SREG_I \<and>
   bit (SREG (Atomic_dtor (fst (Atomic_ctor (cleared_regs\<lparr>SREG := 0x82\<rparr>)))
                (cleared_regs\<lparr>SREG := 0x03\<rparr>))) (0::nat) \<and>
   interrupts_enabled (Atomic_dtor (fst (Atomic_ctor (cleared_regs\<lparr>SREG := 0x82\<rparr>)))
                         (cleared_regs\<lparr>SREG := 0x03\<rparr>))"
proof -
  have a: "\<not> interrupts_enabled (cleared_regs\<lparr>SREG := 0x03\<rparr>)"
    by (simp add: interrupts_enabled_def SREG_I_def bit_iff_odd)
  have b: "interrupts_enabled (cleared_regs\<lparr>SREG := 0x82\<rparr>)"
    by (simp add: interrupts_enabled_def SREG_I_def bit_iff_odd)
  have c: "(0::nat) \<noteq> SREG_I" by (simp add: SREG_I_def)
  show ?thesis
    using a b c
      Atomic_dtor_frame [of "cleared_regs\<lparr>SREG := 0x82\<rparr>" "cleared_regs\<lparr>SREG := 0x03\<rparr>"]
    by simp
qed

text \<open>
  The destructor does not restore a cleared snapshot bit: an Atomic constructed with
  interrupts disabled and destroyed in a state where the interrupt enable bit has been
  set in the meantime leaves interrupts enabled.
\<close>

theorem Atomic_dtor_counterexample:
  "\<not> interrupts_enabled cleared_regs \<and>
   interrupts_enabled
     (Atomic_dtor (fst (Atomic_ctor cleared_regs)) (cleared_regs\<lparr>SREG := 0x80\<rparr>))"
proof -
  have "interrupts_enabled (cleared_regs\<lparr>SREG := 0x80\<rparr>)"
    by (simp add: interrupts_enabled_def SREG_I_def bit_iff_odd)
  moreover have "\<not> interrupts_enabled cleared_regs"
    by (simp add: interrupts_enabled_def cleared_regs_def)
  ultimately show ?thesis by (simp add: enabled_after_dtor)
qed

section \<open>Properties of the EEPROM byte interface\<close>

lemma unat_ucast_16_32: "unat (ucast (w :: u16) :: u32) = unat w"
proof -
  have "unat w < 2 ^ 16" using unsigned_less [of w] by simp
  then have "unat w < 2 ^ 32" by simp
  then show ?thesis by (simp add: unsigned_ucast_eq take_bit_nat_eq_self)
qed

lemma getBufferPointer_mod: "getBufferPointer pos = unat pos mod 1024"
proof -
  have "(capacity - 1 :: u32) = mask 10" by (simp add: capacity_def mask_eq_exp_minus_1)
  then have "getBufferPointer pos = unat (take_bit 10 (ucast pos :: u32))"
    by (simp add: getBufferPointer_def take_bit_eq_mask)
  also have "\<dots> = take_bit 10 (unat (ucast pos :: u32))"
    by (simp add: unsigned_take_bit_eq)
  also have "unat (ucast pos :: u32) = unat pos"
    by (rule unat_ucast_16_32)
  finally show ?thesis by (simp add: take_bit_eq_mod)
qed

text \<open>
  C9. With the buffer of \<open>capacity\<close> bytes, for every 16-bit position and data byte the
  pointer computed for the position is the index \<open>pos mod 1024\<close>, which lies inside the
  buffer; the single-byte write stores the byte there and the single-byte read returns
  the byte there. Neither is an access outside the buffer: a position at or beyond the
  capacity wraps around.
\<close>

theorem EEPROM_single_byte_in_bounds:
  "length auiBuffer = unat capacity \<Longrightarrow>
   getBufferPointer pos = unat pos mod 1024 \<and>
   getBufferPointer pos < length auiBuffer \<and>
   EEPROM_write pos d auiBuffer = Some (auiBuffer[unat pos mod 1024 := d]) \<and>
   EEPROM_read pos auiBuffer = Some (auiBuffer ! (unat pos mod 1024))"
  by (simp add: getBufferPointer_mod EEPROM_write_def EEPROM_read_def eeprom_write_byte_def
      eeprom_read_byte_def capacity_def)

theorem EEPROM_single_byte_in_bounds_witness:
  "length (replicate 1024 (0::u8)) = unat capacity \<and>
   getBufferPointer 1029 = 5 \<and>
   EEPROM_write 1029 0xAB (replicate 1024 0) = Some ((replicate 1024 0)[5 := 0xAB]) \<and>
   EEPROM_read 1029 (replicate 1024 0) = Some 0"
proof -
  have len: "length (replicate 1024 (0::u8)) = unat capacity"
    by (simp add: capacity_def)
  show ?thesis
    using len EEPROM_single_byte_in_bounds [OF len, of 1029 "0xAB"]
    by simp
qed

section \<open>Properties of the bit accessors\<close>

lemma bit_BitGroup_mask:
  "bit (BitGroup_mask lo hi) n \<longleftrightarrow> lo \<le> n \<and> n < 8 \<and> n - lo < hi - lo + 1"
  by (auto simp: BitGroup_mask_def bit_push_bit_iff bit_mask_iff)

lemma bit_BitGroup_mask_range:
  "lo \<le> hi \<Longrightarrow> bit (BitGroup_mask lo hi) n \<longleftrightarrow> lo \<le> n \<and> n \<le> hi \<and> n < 8"
  by (auto simp: bit_BitGroup_mask)

lemma bit_BitGroupInRegister_write:
  "lo \<le> hi \<Longrightarrow>
   bit (BitGroupInRegister_write lo hi v r) n \<longleftrightarrow>
     (bit r n \<and> \<not> (lo \<le> n \<and> n \<le> hi)) \<or> (lo \<le> n \<and> n < 8 \<and> bit v (n - lo))"
  by (auto simp: BitGroupInRegister_write_def bit_or_iff bit_and_iff bit_not_iff
      bit_BitGroup_mask_range bit_push_bit_iff dest: bit_imp_le_length)

lemma bit_BitGroupInRegister_read:
  "lo \<le> hi \<Longrightarrow>
   bit (BitGroupInRegister_read lo hi r) n \<longleftrightarrow> n + lo \<le> hi \<and> bit r (n + lo)"
  by (auto simp: BitGroupInRegister_read_def bit_drop_bit_eq bit_and_iff
      bit_BitGroup_mask_range add.commute dest: bit_imp_le_length)

lemma bit_BitInRegister_write:
  "i < 8 \<Longrightarrow> bit (BitInRegister_write i b r) n \<longleftrightarrow> (if n = i then b else bit r n)"
  by (auto simp: BitInRegister_write_def BitInRegister_set_def BitInRegister_clear_def
      bit_or_iff bit_and_iff bit_not_iff bit_push_bit_iff bit_1_iff simp del: push_bit_of_1
      dest: bit_imp_le_length)

section \<open>Properties of the waveform generation mode selectors\<close>

lemma three_mask: "(3 :: u8) = mask 2" by (simp add: mask_eq_exp_minus_1)

lemma bit_and_3: "bit (v AND (3::u8)) n \<longleftrightarrow> bit v n \<and> n < 2"
  by (auto simp: three_mask bit_and_iff bit_mask_iff)

lemma and_4_neq_0: "(v AND (4::u8)) \<noteq> 0 \<longleftrightarrow> bit v 2"
  using and_exp_eq_0_iff_not_bit [of v 2] by simp

lemma bit_or_4: "bit (w OR (4::u8)) n \<longleftrightarrow> bit w n \<or> n = 2"
proof -
  have "(4::u8) = push_bit 2 1" by simp
  then show ?thesis
    by (auto simp only: bit_or_iff bit_push_bit_iff bit_1_iff) simp_all
qed

lemma bit_and_7: "bit (v AND (7::u8)) n \<longleftrightarrow> bit v n \<and> n < 3"
proof -
  have m: "(7 :: u8) = mask 3" by (simp add: mask_eq_exp_minus_1)
  show ?thesis unfolding m by (auto simp: bit_and_iff bit_mask_iff)
qed

lemma le_7_and_7: "v \<le> (7::u8) \<Longrightarrow> v AND 7 = v"
proof -
  assume le: "v \<le> 7"
  have m: "(7 :: u8) = mask 3" by (simp add: mask_eq_exp_minus_1)
  from le have "uint v < 2 ^ 3" by (simp add: word_le_def)
  then have "v AND mask 3 = v" by (simp only: mask_eq_iff)
  then show ?thesis by (simp only: m)
qed

lemma Timer0_WGM_readback:
  "Timer0_WGM_read (Timer0_WGM_write v s) = v AND 7"
proof (rule bit_word_eqI)
  fix n :: nat
  assume "n < LENGTH(8)"
  then have n: "n < 8" by simp
  have less3: "m < 3 \<longleftrightarrow> m < 2 \<or> m = 2" for m :: nat by auto
  show "bit (Timer0_WGM_read (Timer0_WGM_write v s)) n = bit (v AND 7) n"
    using n
    by (cases "n = 2")
      (auto simp: Timer0_WGM_read_def Timer0_WGM_write_def Let_def BitInRegister_read_def
        bit_BitInRegister_write bit_BitGroupInRegister_read bit_BitGroupInRegister_write
        bit_and_3 and_4_neq_0 bit_or_4 bit_and_7 less3 WGM00_def WGM01_def WGM02_def)
qed

lemma Timer0_WGM_roundtrip:
  "v \<le> 7 \<Longrightarrow> Timer0_WGM_read (Timer0_WGM_write v s) = v"
  by (simp add: Timer0_WGM_readback le_7_and_7)

lemma bit_push2_and_3: "bit (push_bit 2 (v AND (3::u8))) n \<longleftrightarrow> 2 \<le> n \<and> n < 4 \<and> bit v (n - 2)"
  by (auto simp: bit_push_bit_iff bit_and_3 simp del: push_bit_and dest: bit_imp_le_length)

lemma Timer1_WGM_readback:
  "Timer1_WGM_read (Timer1_WGM_write v s) = v AND 3"
  apply (rule bit_word_eqI)
  apply (auto simp: Timer1_WGM_read_def Timer1_WGM_write_def Let_def 
        bit_BitGroupInRegister_read bit_BitGroupInRegister_write bit_or_iff bit_push_bit_iff
        bit_and_3 bit_push2_and_3 WGM10_def WGM11_def WGM12_def WGM13_def simp del: push_bit_and)
  done


lemma Timer2_WGM_readback:
  "Timer2_WGM_read (Timer2_WGM_write v s) = v AND 7"
proof (rule bit_word_eqI)
  fix n :: nat
  assume "n < LENGTH(8)"
  then have n: "n < 8" by simp
  have less3: "m < 3 \<longleftrightarrow> m < 2 \<or> m = 2" for m :: nat by auto
  show "bit (Timer2_WGM_read (Timer2_WGM_write v s)) n = bit (v AND 7) n"
    using n
    by (cases "n = 2")
      (auto simp: Timer2_WGM_read_def Timer2_WGM_write_def Let_def BitInRegister_read_def
        bit_BitInRegister_write bit_BitGroupInRegister_read bit_BitGroupInRegister_write
        bit_and_3 and_4_neq_0 bit_or_4 bit_and_7 less3 WGM20_def WGM21_def WGM22_def)
qed

lemma Timer0_modes_roundtrip:
  "\<forall>v \<in> set Timer0_modes. \<forall>s. Timer0_WGM_read (Timer0_WGM_write v s) = v"
  by (simp add: Timer0_WGM_readback Timer0_modes_def Timer0_NORMAL_def
      Timer0_PWM_PHASE_CORRECT_1_def Timer0_CTC_def Timer0_PWM_FAST_1_def
      Timer0_PWM_PHASE_CORRECT_2_def Timer0_PWM_FAST_2_def)

lemma Timer2_modes_roundtrip:
  "\<forall>v \<in> set Timer2_modes. \<forall>s. Timer2_WGM_read (Timer2_WGM_write v s) = v"
  by (simp add: Timer2_WGM_readback Timer2_modes_def)

text \<open>
  C1 asks that writing a waveform generation mode and reading it back returns the mode,
  for the selectors of all three timers. Timers 0 and 2 do (\<open>Timer0_modes_roundtrip\<close>,
  \<open>Timer2_modes_roundtrip\<close>). Timer 1 does not: its \<^verbatim>\<open>write\<close> passes
  \<^verbatim>\<open>(value & 0b11) << 2\<close>, the low two bits again, to the group WGM12..WGM13, so the
  high two bits of the mode are never stored and the bits 3 and 4 of TCCR1B are cleared.
  Whatever the registers held, writing the enumerator \<open>CTC_1 = 0b0100\<close> and reading the
  selector back yields \<open>NORMAL = 0\<close>.
\<close>

theorem Timer1_WGM_loses_high_bits:
  "Timer1_WGM_read (Timer1_WGM_write Timer1_CTC_1 s) = Timer1_NORMAL \<and>
   Timer1_NORMAL \<noteq> Timer1_CTC_1 \<and> Timer1_CTC_1 \<in> set Timer1_modes"
  by (simp add: Timer1_WGM_readback Timer1_CTC_1_def Timer1_NORMAL_def Timer1_modes_def)

section \<open>Properties of the pin group\<close>

lemma DDR_DDR_store: "DDR p (DDR_store p v s) = v"
  by (cases p) simp_all

lemma bit_255_int: "bit (255 :: int) n \<longleftrightarrow> n < 8"
proof -
  have m: "(255 :: int) = mask 8" by (simp add: mask_eq_exp_minus_1)
  show ?thesis unfolding m by (simp add: bit_mask_iff)
qed

text \<open>
  \<^verbatim>\<open>setAsInput()\<close> writes 0, which fits every group: it clears exactly the data direction
  bits of the group.
\<close>

lemma bit_setAsInput:
  "t_firstPin \<le> t_lastPin \<Longrightarrow>
   bit (DDR p (GPIOSubPort_setAsInput p t_firstPin t_lastPin s)) n \<longleftrightarrow>
     bit (DDR p s) n \<and> \<not> (t_firstPin \<le> n \<and> n \<le> t_lastPin)"
  by (simp add: GPIOSubPort_setAsInput_def DDR_DDR_store bit_BitGroupInRegister_write)

text \<open>
  \<^verbatim>\<open>setAsOutput()\<close> hands \<^verbatim>\<open>0xFF\<close> to the bit group write. Up to the last pin of the group
  the result is the same for every write that meets the contract of the accessor: the
  bits of the group are set and the bits below the first pin stay. For a group that ends
  below pin 7 the value is wider than the group, and what becomes of the bits above the
  last pin is decided by the accessor of \<^verbatim>\<open>register_access.h\<close> alone; nothing is stated
  about them.
\<close>

lemma bit_setAsOutput_upto_lastPin:
  "t_firstPin \<le> t_lastPin \<Longrightarrow> n \<le> t_lastPin \<Longrightarrow> t_lastPin < 8 \<Longrightarrow>
   bit (DDR p (GPIOSubPort_setAsOutput p t_firstPin t_lastPin s)) n \<longleftrightarrow>
     bit (DDR p s) n \<or> t_firstPin \<le> n"
  by (auto simp: GPIOSubPort_setAsOutput_def DDR_DDR_store bit_BitGroupInRegister_write bit_255_int)

section \<open>Properties of the baud rate computation\<close>

subsection \<open>Word arithmetic without overflow\<close>

lemma unat_mult_16: "unat Bd * 16 < 2 ^ 32 \<Longrightarrow> unat (Bd * 16 :: u32) = unat Bd * 16"
  using unat_mult_lem [of Bd 16] by simp

lemma unat_mult_8: "unat Bd * 8 < 2 ^ 32 \<Longrightarrow> unat (Bd * 8 :: u32) = unat Bd * 8"
  using unat_mult_lem [of Bd 8] by simp

lemma unat_mult_1000: "unat x * 1000 < 2 ^ 32 \<Longrightarrow> unat (x * 1000 :: u32) = unat x * 1000"
  using unat_mult_lem [of x 1000] by simp

lemma unat_add_u32: "unat x + unat y < 2 ^ 32 \<Longrightarrow> unat (x + y :: u32) = unat x + unat y"
  using unat_add_lem [of x y] by simp

lemma unat_ucast_32_16: "unat w < 2 ^ 16 \<Longrightarrow> unat (ucast (w :: u32) :: u16) = unat w"
  by (simp add: unsigned_ucast_eq take_bit_nat_eq_self)

lemma unat_pred_u32: "0 < unat w \<Longrightarrow> unat (w - 1 :: u32) = unat w - 1"
  by (rule unat_minus_one) (auto simp: unat_gt_0)

lemma unat_sub_1000: "1000 \<le> unat w \<Longrightarrow> unat (w - 1000 :: u32) = unat w - 1000"
  using unat_sub [of 1000 w] by (simp add: word_le_nat_alt)

text \<open>The quotient with rounding bias of one mode, before the decrement.\<close>

lemma ubrr_value_unat:
  fixes F Bd :: u32 and k :: u32
  assumes b: "0 < unat Bd" and k: "0 < unat k"
    and kb: "unat Bd * unat k < 2 ^ 32"
    and sum: "unat F + unat Bd * 8 < 2 ^ 32"
    and q: "(unat F + unat Bd * 8) div (unat Bd * unat k) \<le> 65536"
    and q1: "unat Bd * unat k \<le> unat F + unat Bd * 8"
  shows "Bd * k \<noteq> 0"
    and "unat (ucast ((F + Bd * 8) div (Bd * k) - 1) :: u16) =
           (unat F + unat Bd * 8) div (unat Bd * unat k) - 1"
proof -
  have m: "unat (Bd * k) = unat Bd * unat k"
    using kb unat_mult_lem [of Bd k] by simp
  with b k show "Bd * k \<noteq> 0" by (metis unat_0 mult_eq_0_iff less_numeral_extra(3))
  have "unat Bd * 8 < 2 ^ 32" using sum by simp
  then have m8: "unat (Bd * 8) = unat Bd * 8" by (rule unat_mult_8)
  have s: "unat (F + Bd * 8) = unat F + unat Bd * 8"
    using sum by (simp add: unat_add_u32 m8)
  have d: "unat ((F + Bd * 8) div (Bd * k)) = (unat F + unat Bd * 8) div (unat Bd * unat k)"
    by (simp add: unat_div s m)
  have pos: "0 < (unat F + unat Bd * 8) div (unat Bd * unat k)"
    using q1 b k by (simp add: div_greater_zero_iff)
  have p: "unat ((F + Bd * 8) div (Bd * k) - 1) = (unat F + unat Bd * 8) div (unat Bd * unat k) - 1"
    using pos by (simp add: unat_pred_u32 d)
  have "(unat F + unat Bd * 8) div (unat Bd * unat k) - 1 < 2 ^ 16"
    using q pos by simp
  then show "unat (ucast ((F + Bd * 8) div (Bd * k) - 1) :: u16) =
           (unat F + unat Bd * 8) div (unat Bd * unat k) - 1"
    by (simp add: unat_ucast_32_16 p)
qed


lemma real_rate_unat:
  fixes F :: u32 and t n :: u16
  assumes t: "0 < unat t" and nw: "unat t * (unat n + 1) < 2 ^ 16"
  shows "t * (n + 1) \<noteq> 0"
    and "unat (F div ucast (t * (n + 1))) = unat F div (unat t * (unat n + 1))"
proof -
  have "1 * (unat n + 1) \<le> unat t * (unat n + 1)"
    using t by (intro mult_le_mono1) simp
  then have "unat n + 1 \<le> unat t * (unat n + 1)" by simp
  then have "unat n + unat (1 :: u16) < 2 ^ 16" using nw by simp
  then have n1: "unat (n + 1) = unat n + 1"
    using unat_add_lem [of n 1] by simp
  have m: "unat (t * (n + 1)) = unat t * (unat n + 1)"
    using nw unat_mult_lem [of t "n + 1"] by (simp add: n1)
  then have "0 < unat (t * (n + 1))" using t by simp
  then show "t * (n + 1) \<noteq> 0" by (simp add: unat_gt_0)
  show "unat (F div ucast (t * (n + 1))) = unat F div (unat t * (unat n + 1))"
    by (simp add: unat_div unat_ucast_16_32 m)
qed

lemma quotient_ge_1000:
  fixes a b :: nat
  assumes "0 < b" and "b \<le> a"
  shows "1000 \<le> a * 1000 div b"
proof -
  have "b * 1000 \<le> a * 1000" using assms by simp
  then have "b * 1000 div b \<le> a * 1000 div b" by (rule div_le_mono)
  then show ?thesis using assms by simp
qed

lemma error_above_unat:
  fixes real Bd :: u32
  assumes "Bd < real" and "Bd \<noteq> 0" and "unat real * 1000 < 2 ^ 32"
  shows "uint (real * 1000 div Bd - 1000) = spec_error (uint real) (uint Bd)"
    and "0 \<le> spec_error (uint real) (uint Bd)"
proof -
  have lt: "unat Bd < unat real" using assms(1) by (simp add: word_less_nat_alt)
  have b: "0 < unat Bd" using assms(2) by (simp add: unat_gt_0)
  have q: "1000 \<le> unat real * 1000 div unat Bd"
    using b lt by (intro quotient_ge_1000) simp_all
  have "unat (real * 1000 div Bd) = unat real * 1000 div unat Bd"
    using assms(3) by (simp add: unat_div unat_mult_1000)
  then have "unat (real * 1000 div Bd - 1000) = unat real * 1000 div unat Bd - 1000"
    using q by (simp add: unat_sub_1000)
  then have "uint (real * 1000 div Bd - 1000) = int (unat real * 1000 div unat Bd) - 1000"
    using q by (simp only: uint_nat of_nat_diff of_nat_numeral)
  also have "\<dots> = uint real * 1000 div uint Bd - 1000"
    by (simp only: uint_nat zdiv_int of_nat_mult of_nat_numeral)
  finally have e: "uint (real * 1000 div Bd - 1000) = uint real * 1000 div uint Bd - 1000" .
  have gt: "uint Bd < uint real" using lt by (simp only: uint_nat of_nat_less_iff)
  show "uint (real * 1000 div Bd - 1000) = spec_error (uint real) (uint Bd)"
    using e gt by (simp add: spec_error_def)
  have "(1000 :: int) \<le> int (unat real * 1000 div unat Bd)" using q by simp
  then have "(1000 :: int) \<le> uint real * 1000 div uint Bd" by (simp only: uint_nat zdiv_int of_nat_mult of_nat_numeral)
  then show "0 \<le> spec_error (uint real) (uint Bd)"
    using gt by (simp add: spec_error_def)
qed

lemma error_below_unat:
  fixes real Bd :: u32
  assumes "\<not> Bd < real" and "real \<noteq> 0" and "unat Bd * 1000 < 2 ^ 32"
  shows "uint (Bd * 1000 div real - 1000) = spec_error (uint real) (uint Bd)"
    and "0 \<le> spec_error (uint real) (uint Bd)"
proof -
  have le: "unat real \<le> unat Bd" using assms(1) by (simp add: word_less_nat_alt)
  have r: "0 < unat real" using assms(2) by (simp add: unat_gt_0)
  have q: "1000 \<le> unat Bd * 1000 div unat real"
    using r le by (intro quotient_ge_1000) simp_all
  have "unat (Bd * 1000 div real) = unat Bd * 1000 div unat real"
    using assms(3) by (simp add: unat_div unat_mult_1000)
  then have "unat (Bd * 1000 div real - 1000) = unat Bd * 1000 div unat real - 1000"
    using q by (simp add: unat_sub_1000)
  then have "uint (Bd * 1000 div real - 1000) = int (unat Bd * 1000 div unat real) - 1000"
    using q by (simp only: uint_nat of_nat_diff of_nat_numeral)
  also have "\<dots> = uint Bd * 1000 div uint real - 1000"
    by (simp only: uint_nat zdiv_int of_nat_mult of_nat_numeral)
  finally have e: "uint (Bd * 1000 div real - 1000) = uint Bd * 1000 div uint real - 1000" .
  have ngt: "\<not> uint Bd < uint real" using le by (simp only: uint_nat of_nat_less_iff not_less)
  show "uint (Bd * 1000 div real - 1000) = spec_error (uint real) (uint Bd)"
    using e ngt by (simp add: spec_error_def)
  have "(1000 :: int) \<le> int (unat Bd * 1000 div unat real)" using q by simp
  then have "(1000 :: int) \<le> uint Bd * 1000 div uint real" by (simp only: uint_nat zdiv_int of_nat_mult of_nat_numeral)
  then show "0 \<le> spec_error (uint real) (uint Bd)"
    using ngt by (simp add: spec_error_def)
qed

lemma real_single_defined_baud:
  "getRealBaudRateSingleSpeed F Bd = Some r \<Longrightarrow> Bd \<noteq> 0"
  by (auto simp: getRealBaudRateSingleSpeed_def getUBRRValueSingleSpeed_def split: option.splits if_splits)

lemma real_double_defined_baud:
  "getRealBaudRateDoubleSpeed F Bd = Some r \<Longrightarrow> Bd \<noteq> 0"
  by (auto simp: getRealBaudRateDoubleSpeed_def getUBRRValueDoubleSpeed_def split: option.splits if_splits)

lemma max_bound_above:
  fixes real Bd :: u32
  assumes "max (uint real) (uint Bd) * 1000 < 2 ^ 32" and "Bd < real"
  shows "unat real * 1000 < 2 ^ 32"
proof -
  have "uint Bd < uint real" using assms(2) by (simp add: word_less_def)
  then have "uint real * 1000 < 2 ^ 32" using assms(1) by (simp add: max_def)
  then have "int (unat real * 1000) < int (2 ^ 32)" by (simp only: uint_nat of_nat_mult of_nat_numeral of_nat_power)
  then show ?thesis by (simp only: of_nat_less_iff)
qed

lemma max_bound_below:
  fixes real Bd :: u32
  assumes "max (uint real) (uint Bd) * 1000 < 2 ^ 32" and "\<not> Bd < real"
  shows "unat Bd * 1000 < 2 ^ 32"
proof -
  have "uint real \<le> uint Bd" using assms(2) by (simp add: word_less_def)
  then have "uint Bd * 1000 < 2 ^ 32" using assms(1) by (simp add: max_def)
  then have "int (unat Bd * 1000) < int (2 ^ 32)" by (simp only: uint_nat of_nat_mult of_nat_numeral of_nat_power)
  then show ?thesis by (simp only: of_nat_less_iff)
qed

lemma error_body:
  fixes real Bd :: u32
  assumes "Bd \<noteq> 0" and "real \<noteq> 0" and "max (uint real) (uint Bd) * 1000 < 2 ^ 32"
  shows "\<exists>e. (if real > Bd
               then (if Bd = 0 then None else Some (real * 1000 div Bd - 1000))
               else (if real = 0 then None else Some (Bd * 1000 div real - 1000))) = Some e \<and>
             uint e = spec_error (uint real) (uint Bd) \<and> 0 \<le> spec_error (uint real) (uint Bd)"
proof (cases "Bd < real")
  case True
  then show ?thesis
    using assms error_above_unat [OF True assms(1) max_bound_above [OF assms(3) True]] by simp
next
  case False
  then show ?thesis
    using assms error_below_unat [OF False assms(2) max_bound_below [OF assms(3) False]] by simp
qed

subsection \<open>The divisor of double speed mode\<close>

text \<open>
  Where nothing overflows, the divisor of single speed mode is the one of the design
  document, and so is the achieved rate of both modes for the divisor computed.
\<close>

lemma single_speed_divisor_formula:
  fixes F Bd :: u32
  assumes b: "0 < unat Bd" and lo: "8 * unat Bd \<le> unat F"
    and sum: "unat F + 8 * unat Bd < 2 ^ 32"
    and q: "(unat F + 8 * unat Bd) div (16 * unat Bd) \<le> 65536"
  shows "\<exists>n. getUBRRValueSingleSpeed F Bd = Some n \<and>
           uint n = spec_divisor 16 (uint F) (uint Bd)"
proof -
  let ?q = "(unat F + unat Bd * 8) div (unat Bd * 16)"
  have q1: "unat Bd * unat (16 :: u32) \<le> unat F + unat Bd * 8" using lo by simp
  have qpos: "0 < ?q" using q1 b by (simp add: div_greater_zero_iff)
  have nz: "Bd * 16 \<noteq> 0"
    and n: "unat (ucast ((F + Bd * 8) div (Bd * 16) - 1) :: u16) = ?q - 1"
    using ubrr_value_unat [where Bd = Bd and k = 16 and F = F] b lo sum q q1
    by (simp_all add: mult.commute)
  have "int (?q - 1) = int ?q - 1" using qpos by (simp add: of_nat_diff)
  also have "int ?q = (int (unat F) + int (unat Bd) * 8) div (int (unat Bd) * 16)"
    by (simp only: zdiv_int of_nat_add of_nat_mult of_nat_numeral)
  also have "\<dots> - 1 = spec_divisor 16 (int (unat F)) (int (unat Bd))"
    by (simp add: spec_divisor_def mult.commute)
  finally have "int (?q - 1) = spec_divisor 16 (int (unat F)) (int (unat Bd))" .
  then have "uint (ucast ((F + Bd * 8) div (Bd * 16) - 1) :: u16) =
      spec_divisor 16 (uint F) (uint Bd)"
    by (simp only: uint_nat n)
  then show ?thesis using nz by (simp add: getUBRRValueSingleSpeed_def)
qed

lemma achieved_rate_formula:
  fixes F Bd :: u32
  shows "getUBRRValueSingleSpeed F Bd = Some n \<Longrightarrow> unat n < 4095 \<Longrightarrow>
     \<exists>r. getRealBaudRateSingleSpeed F Bd = Some r \<and> uint r = spec_achieved 16 (uint F) (uint n)"
    and "getUBRRValueDoubleSpeed F Bd = Some m \<Longrightarrow> unat m < 8191 \<Longrightarrow>
     \<exists>r. getRealBaudRateDoubleSpeed F Bd = Some r \<and> uint r = spec_achieved 8 (uint F) (uint m)"
proof -
  have conv: "int (unat F div (k * (unat x + 1))) = spec_achieved (int k) (uint F) (uint x)"
    for k :: nat and x :: u16
    by (simp only: spec_achieved_def uint_nat zdiv_int of_nat_mult of_nat_add of_nat_1)
  {
    assume u: "getUBRRValueSingleSpeed F Bd = Some n" and lt: "unat n < 4095"
    have w: "unat (16 :: u16) * (unat n + 1) < 2 ^ 16" using lt by simp
    have dz: "16 * (n + 1) \<noteq> 0"
      and r: "unat (F div ucast (16 * (n + 1))) = unat F div (unat (16 :: u16) * (unat n + 1))"
      using real_rate_unat [where t = 16 and n = n] w by simp_all
    have "unat (F div ucast (16 * (n + 1))) = unat F div (16 * (unat n + 1))"
      using r by simp
    then have "uint (F div ucast (16 * (n + 1))) = int (unat F div (16 * (unat n + 1)))"
      by (simp only: uint_nat)
    then have "uint (F div ucast (16 * (n + 1))) = spec_achieved 16 (uint F) (uint n)"
      using conv [of 16 n] by simp
    then show "\<exists>r. getRealBaudRateSingleSpeed F Bd = Some r \<and>
        uint r = spec_achieved 16 (uint F) (uint n)"
      using dz by (simp add: getRealBaudRateSingleSpeed_def u Let_def)
  }
  {
    assume u: "getUBRRValueDoubleSpeed F Bd = Some m" and lt: "unat m < 8191"
    have w: "unat (8 :: u16) * (unat m + 1) < 2 ^ 16" using lt by simp
    have dz: "8 * (m + 1) \<noteq> 0"
      and r: "unat (F div ucast (8 * (m + 1))) = unat F div (unat (8 :: u16) * (unat m + 1))"
      using real_rate_unat [where t = 8 and n = m] w by simp_all
    have "unat (F div ucast (8 * (m + 1))) = unat F div (8 * (unat m + 1))"
      using r by simp
    then have "uint (F div ucast (8 * (m + 1))) = int (unat F div (8 * (unat m + 1)))"
      by (simp only: uint_nat)
    then have "uint (F div ucast (8 * (m + 1))) = spec_achieved 8 (uint F) (uint m)"
      using conv [of 8 m] by simp
    then show "\<exists>r. getRealBaudRateDoubleSpeed F Bd = Some r \<and>
        uint r = spec_achieved 8 (uint F) (uint m)"
      using dz by (simp add: getRealBaudRateDoubleSpeed_def u Let_def)
  }
qed

text \<open>
  C2 asks that each mode's divisor is \<open>(F + B * ticks / 2) / (B * ticks) - 1\<close>, the
  theoretical divisor rounded to the nearest integer. \<^verbatim>\<open>getUBRRValueSingleSpeed\<close> adds the
  bias \<^verbatim>\<open>baudRate * 8\<close>, half of its \<^verbatim>\<open>baudRate * 16\<close>. \<^verbatim>\<open>getUBRRValueDoubleSpeed\<close> adds
  the same \<^verbatim>\<open>baudRate * 8\<close>, which is all of its divisor \<^verbatim>\<open>baudRate * 8\<close> and not half of
  it. For a clock of 16 MHz and 9600 baud it returns 208, where the formula gives 207.
\<close>

theorem double_speed_divisor_bias:
  "getUBRRValueDoubleSpeed 16000000 9600 = Some 208 \<and> spec_divisor 8 16000000 9600 = 207"
  by (simp add: getUBRRValueDoubleSpeed_def spec_divisor_def)

subsection \<open>The reference configuration\<close>

text \<open>
  C3. For the reference clock 16,000,000 and the requested rate 9600 the solver selects
  single speed mode and returns the divisor 103.
\<close>

theorem solver_16MHz_9600:
  "getDoubleSpeed 16000000 9600 = Some False \<and> getUBRRValue 16000000 9600 = Some 103"
  by (simp add: getDoubleSpeed_def getUBRRValue_def getBaudRateErrorDoubleSpeed_def
      getBaudRateErrorSingleSpeed_def getRealBaudRateDoubleSpeed_def getRealBaudRateSingleSpeed_def
      getUBRRValueDoubleSpeed_def getUBRRValueSingleSpeed_def)

subsection \<open>The relative error\<close>

text \<open>
  C5, as the code has it. For each mode and all inputs for which the achieved rate is
  defined and not zero, and for which 1000 times the larger of the achieved and the
  requested rate fits in 32 bits, the error function returns a value, that value is
  \<open>achieved * 1000 / requested - 1000\<close> if the achieved rate is above the requested one
  and \<open>requested * 1000 / achieved - 1000\<close> otherwise, computed over the integers, and it
  is not negative.
\<close>

theorem baud_rate_error_formula:
  "(getRealBaudRateSingleSpeed F Bd = Some rs \<and> rs \<noteq> 0 \<and>
      max (uint rs) (uint Bd) * 1000 < 2 ^ 32 \<longrightarrow>
      (\<exists>e. getBaudRateErrorSingleSpeed F Bd = Some e \<and>
           uint e = spec_error (uint rs) (uint Bd) \<and> 0 \<le> spec_error (uint rs) (uint Bd))) \<and>
   (getRealBaudRateDoubleSpeed F Bd = Some rd \<and> rd \<noteq> 0 \<and>
      max (uint rd) (uint Bd) * 1000 < 2 ^ 32 \<longrightarrow>
      (\<exists>e. getBaudRateErrorDoubleSpeed F Bd = Some e \<and>
           uint e = spec_error (uint rd) (uint Bd) \<and> 0 \<le> spec_error (uint rd) (uint Bd)))"
proof (intro conjI impI)
  assume a: "getRealBaudRateSingleSpeed F Bd = Some rs \<and> rs \<noteq> 0 \<and>
      max (uint rs) (uint Bd) * 1000 < 2 ^ 32"
  then have b: "Bd \<noteq> 0" by (auto dest: real_single_defined_baud)
  from error_body [OF b] a
  show "\<exists>e. getBaudRateErrorSingleSpeed F Bd = Some e \<and>
           uint e = spec_error (uint rs) (uint Bd) \<and> 0 \<le> spec_error (uint rs) (uint Bd)"
    by (simp add: getBaudRateErrorSingleSpeed_def)
next
  assume a: "getRealBaudRateDoubleSpeed F Bd = Some rd \<and> rd \<noteq> 0 \<and>
      max (uint rd) (uint Bd) * 1000 < 2 ^ 32"
  then have b: "Bd \<noteq> 0" by (auto dest: real_double_defined_baud)
  from error_body [OF b] a
  show "\<exists>e. getBaudRateErrorDoubleSpeed F Bd = Some e \<and>
           uint e = spec_error (uint rd) (uint Bd) \<and> 0 \<le> spec_error (uint rd) (uint Bd)"
    by (simp add: getBaudRateErrorDoubleSpeed_def)
qed

theorem baud_rate_error_formula_witness:
  "getRealBaudRateSingleSpeed 16000000 9600 = Some 9615 \<and>
   getBaudRateErrorSingleSpeed 16000000 9600 = Some 1 \<and> spec_error 9615 9600 = 1 \<and>
   getRealBaudRateDoubleSpeed 16000000 9600 = Some 9569 \<and>
   getBaudRateErrorDoubleSpeed 16000000 9600 = Some 3 \<and> spec_error 9569 9600 = 3"
proof -
  have rs: "getRealBaudRateSingleSpeed 16000000 9600 = Some 9615"
    by (simp add: getRealBaudRateSingleSpeed_def getUBRRValueSingleSpeed_def)
  have rd: "getRealBaudRateDoubleSpeed 16000000 9600 = Some 9569"
    by (simp add: getRealBaudRateDoubleSpeed_def getUBRRValueDoubleSpeed_def)
  show ?thesis
    using rs rd baud_rate_error_formula [of 16000000 9600 9615 9569]
    by (auto simp: spec_error_def word_uint_eq_iff)
qed

text \<open>
  Without the bound the product wraps around: for a clock of 200 MHz and a requested
  rate of 10,000,000 the achieved rate is 12,500,000, the product \<open>achieved * 1000\<close>
  exceeds 32 bits, the quotient of the wrapped product is 391 and the subtraction of 1000
  wraps to 4294966687, where the formula gives 250. And an achieved rate of zero, as for
  a clock of 8 and a requested rate of 1, is the divisor of the second branch: no error
  is computed.
\<close>

theorem baud_rate_error_counterexample:
  "getRealBaudRateSingleSpeed 200000000 10000000 = Some 12500000 \<and>
   getBaudRateErrorSingleSpeed 200000000 10000000 = Some 4294966687 \<and>
   spec_error 12500000 10000000 = 250 \<and>
   getRealBaudRateSingleSpeed 8 1 = Some 0 \<and>
   getBaudRateErrorSingleSpeed 8 1 = None"
  by (simp add: getBaudRateErrorSingleSpeed_def getRealBaudRateSingleSpeed_def
      getUBRRValueSingleSpeed_def spec_error_def)

subsection \<open>Selection of the mode\<close>

lemma error_defined_divisors:
  "getBaudRateErrorDoubleSpeed F Bd = Some eD \<Longrightarrow> \<exists>n. getUBRRValueDoubleSpeed F Bd = Some n"
  "getBaudRateErrorSingleSpeed F Bd = Some eS \<Longrightarrow> \<exists>n. getUBRRValueSingleSpeed F Bd = Some n"
  by (auto simp: getBaudRateErrorDoubleSpeed_def getRealBaudRateDoubleSpeed_def
      getBaudRateErrorSingleSpeed_def getRealBaudRateSingleSpeed_def split: option.splits)

lemma USART0_init_writes:
  assumes "getUBRRValue F Bd = Some ubrr" and "getDoubleSpeed F Bd = Some doubleSpeed"
  shows "\<exists>s'. USART0_init F Bd cfg s = Some s' \<and> UBRR0 s' = ubrr \<and>
           BitInRegister_read U2X0 (UCSR0A s') = doubleSpeed"
  using assms
  by (simp add: USART0_init_def Let_def BitInRegister_read_def bit_BitInRegister_write U2X0_def)

lemma getDoubleSpeed_eq:
  "getDoubleSpeed F Bd = Some ds \<longleftrightarrow>
     (\<exists>eD eS. getBaudRateErrorDoubleSpeed F Bd = Some eD \<and>
        getBaudRateErrorSingleSpeed F Bd = Some eS \<and> ds = (eD < eS))"
  by (auto simp: getDoubleSpeed_def split: option.splits)

lemma USART0_init_None:
  "getDoubleSpeed F Bd = None \<Longrightarrow> USART0_init F Bd cfg s = None \<and> getUBRRValue F Bd = None"
  by (simp add: USART0_init_def getUBRRValue_def)

text \<open>
  C4, as the code has it. Double speed mode is selected exactly if both relative errors are
  computed and the error of double speed is strictly less than the error of single
  speed, and single speed mode exactly if both are computed and it is not, so a tie
  selects single speed. Whenever a mode is selected, \<^verbatim>\<open>getUBRRValue\<close> returns the divisor
  of that mode, and \<^verbatim>\<open>USART0::init\<close> returns with that divisor in the baud rate register
  and the selection in the bit U2X0 of UCSR0A. Where no mode is selected, because an
  error is the result of a division by zero, neither a divisor nor a register file is
  returned.
\<close>

theorem double_speed_selection:
  "(getDoubleSpeed F Bd = Some True \<longleftrightarrow>
      (\<exists>eD eS. getBaudRateErrorDoubleSpeed F Bd = Some eD \<and>
         getBaudRateErrorSingleSpeed F Bd = Some eS \<and> eD < eS)) \<and>
   (getDoubleSpeed F Bd = Some False \<longleftrightarrow>
      (\<exists>eD eS. getBaudRateErrorDoubleSpeed F Bd = Some eD \<and>
         getBaudRateErrorSingleSpeed F Bd = Some eS \<and> eS \<le> eD)) \<and>
   (\<forall>doubleSpeed. getDoubleSpeed F Bd = Some doubleSpeed \<longrightarrow>
      (\<exists>ubrr s'. getUBRRValue F Bd = Some ubrr \<and>
         (if doubleSpeed then getUBRRValueDoubleSpeed F Bd
          else getUBRRValueSingleSpeed F Bd) = Some ubrr \<and>
         USART0_init F Bd cfg s = Some s' \<and> UBRR0 s' = ubrr \<and>
         BitInRegister_read U2X0 (UCSR0A s') = doubleSpeed)) \<and>
   (getDoubleSpeed F Bd = None \<longrightarrow>
      getUBRRValue F Bd = None \<and> USART0_init F Bd cfg s = None)"
proof (intro conjI allI impI)
  show "getDoubleSpeed F Bd = Some True \<longleftrightarrow>
      (\<exists>eD eS. getBaudRateErrorDoubleSpeed F Bd = Some eD \<and>
         getBaudRateErrorSingleSpeed F Bd = Some eS \<and> eD < eS)"
    by (simp add: getDoubleSpeed_eq)
  show "getDoubleSpeed F Bd = Some False \<longleftrightarrow>
      (\<exists>eD eS. getBaudRateErrorDoubleSpeed F Bd = Some eD \<and>
         getBaudRateErrorSingleSpeed F Bd = Some eS \<and> eS \<le> eD)"
    by (simp add: getDoubleSpeed_eq not_less)
next
  fix doubleSpeed
  assume ds: "getDoubleSpeed F Bd = Some doubleSpeed"
  then obtain eD eS where d: "getBaudRateErrorDoubleSpeed F Bd = Some eD"
    and s: "getBaudRateErrorSingleSpeed F Bd = Some eS"
    by (auto simp: getDoubleSpeed_eq)
  obtain nd where nd: "getUBRRValueDoubleSpeed F Bd = Some nd"
    using error_defined_divisors(1) [OF d] by blast
  obtain ns where ns: "getUBRRValueSingleSpeed F Bd = Some ns"
    using error_defined_divisors(2) [OF s] by blast
  have u: "getUBRRValue F Bd = Some (if doubleSpeed then nd else ns)"
    by (simp add: getUBRRValue_def ds nd ns)
  have sel: "(if doubleSpeed then getUBRRValueDoubleSpeed F Bd else getUBRRValueSingleSpeed F Bd)
      = Some (if doubleSpeed then nd else ns)"
    by (simp add: nd ns)
  from USART0_init_writes [OF u ds] u sel
  show "\<exists>ubrr s'. getUBRRValue F Bd = Some ubrr \<and>
         (if doubleSpeed then getUBRRValueDoubleSpeed F Bd
          else getUBRRValueSingleSpeed F Bd) = Some ubrr \<and>
         USART0_init F Bd cfg s = Some s' \<and> UBRR0 s' = ubrr \<and>
         BitInRegister_read U2X0 (UCSR0A s') = doubleSpeed"
    by blast
next
  assume "getDoubleSpeed F Bd = None"
  then show "getUBRRValue F Bd = None" "USART0_init F Bd cfg s = None"
    by (simp_all add: USART0_init_None)
qed

theorem double_speed_selection_witness:
  "getBaudRateErrorDoubleSpeed 16000000 115200 = Some 36 \<and>
   getBaudRateErrorSingleSpeed 16000000 115200 = Some 36 \<and>
   getDoubleSpeed 16000000 115200 = Some False \<and>
   getUBRRValue 16000000 115200 = Some 8 \<and>
   getUBRRValueSingleSpeed 16000000 115200 = Some 8 \<and>
   (\<exists>s'. USART0_init 16000000 115200 config_8N1 cleared_regs = Some s' \<and> UBRR0 s' = 8 \<and>
      \<not> BitInRegister_read U2X0 (UCSR0A s')) \<and>
   getDoubleSpeed 16000000 0 = None \<and>
   USART0_init 16000000 0 config_8N1 cleared_regs = None"
proof -
  have d: "getBaudRateErrorDoubleSpeed 16000000 115200 = Some 36"
    by (simp add: getBaudRateErrorDoubleSpeed_def getRealBaudRateDoubleSpeed_def
        getUBRRValueDoubleSpeed_def)
  have s: "getBaudRateErrorSingleSpeed 16000000 115200 = Some 36"
    by (simp add: getBaudRateErrorSingleSpeed_def getRealBaudRateSingleSpeed_def
        getUBRRValueSingleSpeed_def)
  have n: "getUBRRValueSingleSpeed 16000000 115200 = Some 8"
    by (simp add: getUBRRValueSingleSpeed_def)
  have z: "getDoubleSpeed 16000000 0 = None"
    by (simp add: getDoubleSpeed_def getBaudRateErrorDoubleSpeed_def
        getRealBaudRateDoubleSpeed_def getUBRRValueDoubleSpeed_def)
  have f: "getDoubleSpeed 16000000 115200 = Some False"
    using double_speed_selection [of 16000000 115200 config_8N1 cleared_regs] d s by simp
  show ?thesis
    using d s n z f double_speed_selection [of 16000000 115200 config_8N1 cleared_regs]
      double_speed_selection [of 16000000 0 config_8N1 cleared_regs]
    by auto
qed

text \<open>
  The selection is not made for all inputs: for a requested rate of 0 the divisor
  functions divide by zero, no flag and no divisor are returned, and \<^verbatim>\<open>USART0::init\<close>
  does not return a register file with the pair written.
\<close>

theorem double_speed_selection_counterexample:
  "getDoubleSpeed 16000000 0 = None \<and> getUBRRValue 16000000 0 = None \<and>
   USART0_init 16000000 0 config_8N1 cleared_regs = None"
  by (simp add: USART0_init_def getUBRRValue_def getDoubleSpeed_def
      getBaudRateErrorDoubleSpeed_def getRealBaudRateDoubleSpeed_def getUBRRValueDoubleSpeed_def)

subsection \<open>Where the computation returns\<close>

lemma rate_positive:
  fixes f b k :: nat
  assumes b: "2 \<le> b" and f: "8 * b \<le> f"
  shows "k * ((f + 8 * b) div (k * b)) \<le> f"
proof (rule ccontr)
  let ?q = "(f + 8 * b) div (k * b)"
  assume "\<not> k * ?q \<le> f"
  then have "f + 1 \<le> k * ?q" by simp
  then have "(f + 1) * b \<le> k * ?q * b" by (rule mult_le_mono1)
  moreover have "?q * (k * b) \<le> f + 8 * b" by (rule div_times_less_eq_dividend)
  then have "k * ?q * b \<le> f + 8 * b" by (simp add: mult.assoc mult.left_commute mult.commute)
  ultimately have le: "(f + 1) * b \<le> f + 8 * b" by simp
  have "(f + 1) * 2 \<le> (f + 1) * b" using b by (intro mult_le_mono2)
  with le have "(f + 1) * 2 \<le> f + 8 * b" by simp
  with f show False by simp
qed

lemma quotient_bound:
  fixes f b k m :: nat
  assumes "0 < b" and "0 < k" and "f + 8 * b < m * (k * b)"
  shows "(f + 8 * b) div (k * b) < m"
  using assms by (simp add: less_mult_imp_div_less mult.commute)

lemma single_speed_defined:
  fixes F Bd :: u32
  assumes b: "2 \<le> unat Bd" and lo: "8 * unat Bd \<le> unat F"
    and hi: "unat F < 65528 * unat Bd" and sum: "unat F + 8 * unat Bd < 2 ^ 32"
  shows "\<exists>n r e. getUBRRValueSingleSpeed F Bd = Some n \<and>
           getRealBaudRateSingleSpeed F Bd = Some r \<and>
           getBaudRateErrorSingleSpeed F Bd = Some e"
proof -
  let ?q = "(unat F + unat Bd * 8) div (unat Bd * unat (16 :: u32))"
  have qlt: "?q < 4096"
    using b hi quotient_bound [of "unat Bd" 16 "unat F" 4096] by (simp add: mult.commute)
  have q1: "unat Bd * unat (16 :: u32) \<le> unat F + unat Bd * 8" using lo by simp
  have qpos: "0 < ?q" using q1 b by (simp add: div_greater_zero_iff)
  have nz: "Bd * 16 \<noteq> 0"
    and n: "unat (ucast ((F + Bd * 8) div (Bd * 16) - 1) :: u16) = ?q - 1"
    using ubrr_value_unat [where Bd = Bd and k = 16 and F = F] b lo sum qlt q1 by simp_all
  define n :: u16 where "n = ucast ((F + Bd * 8) div (Bd * 16) - 1)"
  have ubrr: "getUBRRValueSingleSpeed F Bd = Some n"
    using nz by (simp add: getUBRRValueSingleSpeed_def n_def)
  have n1: "unat n + 1 = ?q" using n qpos by (simp add: n_def)
  have w: "unat (16 :: u16) * (unat n + 1) < 2 ^ 16" using qlt n1 by simp
  have dz: "16 * (n + 1) \<noteq> 0"
    and r: "unat (F div ucast (16 * (n + 1))) = unat F div (unat (16 :: u16) * (unat n + 1))"
    using real_rate_unat [where t = 16 and n = n] w by simp_all
  define r where "r = F div ucast (16 * (n + 1))"
  have real: "getRealBaudRateSingleSpeed F Bd = Some r"
    using dz by (simp add: getRealBaudRateSingleSpeed_def ubrr r_def Let_def)
  have "16 * ?q \<le> unat F"
    using rate_positive [OF b lo, of 16] by (simp add: mult.commute)
  then have le: "16 * (unat n + 1) \<le> unat F" by (simp only: n1)
  have "0 < unat F div (16 * (unat n + 1))" using le by (simp add: div_greater_zero_iff)
  moreover have "unat r = unat F div (16 * (unat n + 1))" using r by (simp add: r_def)
  ultimately have "0 < unat r" by simp
  then have rnz: "r \<noteq> 0" by (simp add: unat_gt_0)
  have bnz: "Bd \<noteq> 0" using b by (auto simp: unat_gt_0 [symmetric])
  have "\<exists>e. getBaudRateErrorSingleSpeed F Bd = Some e"
    using rnz bnz by (simp add: getBaudRateErrorSingleSpeed_def real)
  with ubrr real show ?thesis by blast
qed

lemma double_speed_defined:
  fixes F Bd :: u32
  assumes b: "2 \<le> unat Bd" and lo: "8 * unat Bd \<le> unat F"
    and hi: "unat F < 65528 * unat Bd" and sum: "unat F + 8 * unat Bd < 2 ^ 32"
  shows "\<exists>n r e. getUBRRValueDoubleSpeed F Bd = Some n \<and>
           getRealBaudRateDoubleSpeed F Bd = Some r \<and>
           getBaudRateErrorDoubleSpeed F Bd = Some e"
proof -
  let ?q = "(unat F + unat Bd * 8) div (unat Bd * unat (8 :: u32))"
  have qlt: "?q < 8192"
    using b hi quotient_bound [of "unat Bd" 8 "unat F" 8192] by (simp add: mult.commute)
  have q1: "unat Bd * unat (8 :: u32) \<le> unat F + unat Bd * 8" by simp
  have qpos: "0 < ?q" using q1 b by (simp add: div_greater_zero_iff)
  have nz: "Bd * 8 \<noteq> 0"
    and n: "unat (ucast ((F + Bd * 8) div (Bd * 8) - 1) :: u16) = ?q - 1"
    using ubrr_value_unat [where Bd = Bd and k = 8 and F = F] b lo sum qlt q1 by simp_all
  define n :: u16 where "n = ucast ((F + Bd * 8) div (Bd * 8) - 1)"
  have ubrr: "getUBRRValueDoubleSpeed F Bd = Some n"
    using nz by (simp add: getUBRRValueDoubleSpeed_def n_def)
  have n1: "unat n + 1 = ?q" using n qpos by (simp add: n_def)
  have w: "unat (8 :: u16) * (unat n + 1) < 2 ^ 16" using qlt n1 by simp
  have dz: "8 * (n + 1) \<noteq> 0"
    and r: "unat (F div ucast (8 * (n + 1))) = unat F div (unat (8 :: u16) * (unat n + 1))"
    using real_rate_unat [where t = 8 and n = n] w by simp_all
  define r where "r = F div ucast (8 * (n + 1))"
  have real: "getRealBaudRateDoubleSpeed F Bd = Some r"
    using dz by (simp add: getRealBaudRateDoubleSpeed_def ubrr r_def Let_def)
  have "8 * ?q \<le> unat F"
    using rate_positive [OF b lo, of 8] by (simp add: mult.commute)
  then have le: "8 * (unat n + 1) \<le> unat F" by (simp only: n1)
  have "0 < unat F div (8 * (unat n + 1))" using le by (simp add: div_greater_zero_iff)
  moreover have "unat r = unat F div (8 * (unat n + 1))" using r by (simp add: r_def)
  ultimately have "0 < unat r" by simp
  then have rnz: "r \<noteq> 0" by (simp add: unat_gt_0)
  have bnz: "Bd \<noteq> 0" using b by (auto simp: unat_gt_0 [symmetric])
  have "\<exists>e. getBaudRateErrorDoubleSpeed F Bd = Some e"
    using rnz bnz by (simp add: getBaudRateErrorDoubleSpeed_def real)
  with ubrr real show ?thesis by blast
qed

lemma baud_zero_fails:
  "getUBRRValueSingleSpeed F 0 = None \<and> getUBRRValueDoubleSpeed F 0 = None \<and>
   getDoubleSpeed F 0 = None \<and> getUBRRValue F 0 = None"
  by (simp add: getUBRRValueSingleSpeed_def getUBRRValueDoubleSpeed_def getDoubleSpeed_def
      getUBRRValue_def getBaudRateErrorDoubleSpeed_def getRealBaudRateDoubleSpeed_def)

lemma clock_zero_fails:
  "getBaudRateErrorSingleSpeed 0 Bd = None \<and> getDoubleSpeed 0 Bd = None \<and>
   getUBRRValue 0 Bd = None"
proof -
  have s: "getBaudRateErrorSingleSpeed 0 Bd = None"
    by (auto simp: getBaudRateErrorSingleSpeed_def getRealBaudRateSingleSpeed_def Let_def
        split: option.splits)
  then have d: "getDoubleSpeed 0 Bd = None"
    by (simp add: getDoubleSpeed_def split: option.splits)
  then show ?thesis using s by (simp add: getUBRRValue_def)
qed

text \<open>
  C6, as the code has it. The computation is not total: it divides by \<open>baudRate * 16\<close>,
  by \<open>16 * (ubrr + 1)\<close> and by the achieved rate without a check. For every requested
  rate of at least 2 and every clock from 8 times to below 65528 times the requested
  rate, with \<open>clock + 8 * baudRate\<close> below \<open>2 ^ 32\<close>, every division of the six helper
  functions has a non-zero divisor and the pair of divisor and speed flag is returned.
\<close>

theorem solver_total_on_range:
  "2 \<le> unat Bd \<Longrightarrow> 8 * unat Bd \<le> unat F \<Longrightarrow> unat F < 65528 * unat Bd \<Longrightarrow>
   unat F + 8 * unat Bd < 2 ^ 32 \<Longrightarrow>
   (\<exists>ns rs es nd rd ed.
      getUBRRValueSingleSpeed F Bd = Some ns \<and> getRealBaudRateSingleSpeed F Bd = Some rs \<and>
      getBaudRateErrorSingleSpeed F Bd = Some es \<and>
      getUBRRValueDoubleSpeed F Bd = Some nd \<and> getRealBaudRateDoubleSpeed F Bd = Some rd \<and>
      getBaudRateErrorDoubleSpeed F Bd = Some ed) \<and>
   (\<exists>ubrr doubleSpeed. getUBRRValue F Bd = Some ubrr \<and> getDoubleSpeed F Bd = Some doubleSpeed)"
proof -
  assume a: "2 \<le> unat Bd" "8 * unat Bd \<le> unat F" "unat F < 65528 * unat Bd"
    "unat F + 8 * unat Bd < 2 ^ 32"
  obtain ns rs es where s: "getUBRRValueSingleSpeed F Bd = Some ns"
      "getRealBaudRateSingleSpeed F Bd = Some rs" "getBaudRateErrorSingleSpeed F Bd = Some es"
    using single_speed_defined [OF a] by blast
  obtain nd rd ed where d: "getUBRRValueDoubleSpeed F Bd = Some nd"
      "getRealBaudRateDoubleSpeed F Bd = Some rd" "getBaudRateErrorDoubleSpeed F Bd = Some ed"
    using double_speed_defined [OF a] by blast
  have ds: "getDoubleSpeed F Bd = Some (ed < es)"
    by (simp add: getDoubleSpeed_def s d)
  have "getUBRRValue F Bd = Some (if ed < es then nd else ns)"
    by (simp add: getUBRRValue_def ds s d)
  with ds s d show ?thesis by simp
qed

theorem solver_total_on_range_witness:
  "(2::nat) \<le> unat (9600 :: u32) \<and> 8 * unat (9600 :: u32) \<le> unat (16000000 :: u32) \<and>
   unat (16000000 :: u32) < 65528 * unat (9600 :: u32) \<and>
   unat (16000000 :: u32) + 8 * unat (9600 :: u32) < 2 ^ 32 \<and>
   (\<exists>ubrr doubleSpeed. getUBRRValue 16000000 9600 = Some ubrr \<and>
      getDoubleSpeed 16000000 9600 = Some doubleSpeed)"
proof -
  have h: "(2::nat) \<le> unat (9600 :: u32)" "8 * unat (9600 :: u32) \<le> unat (16000000 :: u32)"
    "unat (16000000 :: u32) < 65528 * unat (9600 :: u32)"
    "unat (16000000 :: u32) + 8 * unat (9600 :: u32) < 2 ^ 32"
    by simp_all
  show ?thesis
    using h solver_total_on_range [OF h] by blast
qed

text \<open>
  A requested rate of 0 makes the first division a division by zero, for every clock
  (\<open>baud_zero_fails\<close>); a clock of 0 makes the achieved rate 0, which then is the divisor
  of the error (\<open>clock_zero_fails\<close>). In both cases no pair is returned.
\<close>

theorem solver_not_total_counterexample:
  "getUBRRValueSingleSpeed 16000000 0 = None \<and> getDoubleSpeed 16000000 0 = None \<and>
   getUBRRValue 16000000 0 = None \<and>
   getBaudRateErrorSingleSpeed 0 9600 = None \<and> getDoubleSpeed 0 9600 = None \<and>
   getUBRRValue 0 9600 = None"
  using baud_zero_fails [of 16000000] clock_zero_fails [of 9600] by simp

end
